theory Spec2Isabelle
  imports Main
begin

section \<open>Values of the configuration modules\<close>

text \<open>
  The two configuration modules export object literals. An object literal is kept as the
  list of its properties in the order they are written, so that the presence, the absence
  and the number of properties can be stated. \<open>JCall f args\<close> is the value of a call to
  the imported factory \<open>f\<close>, kept symbolic: the only such call is \<^verbatim>\<open>vue()\<close>.
\<close>

datatype js_value =
    JString string
  | JBool bool
  | JArray "js_value list"
  | JObject "(string \<times> js_value) list"
  | JCall string "js_value list"

text \<open>
  Property access. In an object literal that writes a key twice, the later property wins,
  hence the lookup from the right.
\<close>

fun get_field :: "string \<Rightarrow> js_value \<Rightarrow> js_value option" where
  "get_field k (JObject props) = map_of (rev props) k"
| "get_field k _ = None"

fun get_path :: "string list \<Rightarrow> js_value \<Rightarrow> js_value option" where
  "get_path [] v = Some v"
| "get_path (k # ks) v =
     (case get_field k v of None \<Rightarrow> None | Some v' \<Rightarrow> get_path ks v')"

fun field_names :: "js_value \<Rightarrow> string list" where
  "field_names (JObject props) = map fst props"
| "field_names _ = []"

definition section_names :: "string list \<Rightarrow> js_value \<Rightarrow> string list option" where
  "section_names path v = map_option field_names (get_path path v)"

text \<open>
  \<^verbatim>\<open>defineConfig\<close> of \<^verbatim>\<open>vitest/config\<close> is a typing helper: it returns the object it is
  given.
\<close>

definition defineConfig :: "js_value \<Rightarrow> js_value" where
  "defineConfig config = config"

text \<open>The root configuration: \<^verbatim>\<open>vitest.config.ts\<close> at the root of the monorepo.\<close>

definition root_config :: js_value where
  "root_config = defineConfig (JObject
     [(''test'', JObject
        [(''projects'', JArray [JString ''./my-vue-app'']),
         (''reporters'', JArray [JString ''default'']),
         (''coverage'', JObject
            [(''provider'', JString ''istanbul''),
             (''reporter'', JArray [JString ''text'', JString ''lcov'']),
             (''all'', JBool True),
             (''reportsDirectory'', JString ''./test-results'')])])])"

text \<open>The configuration of the sub-project \<^verbatim>\<open>my-vue-app\<close>.\<close>

definition vue :: "js_value" where
  "vue = JCall ''vue'' []"

definition project_config :: js_value where
  "project_config = defineConfig (JObject
     [(''plugins'', JArray [vue]),
      (''test'', JObject
        [(''environment'', JString ''jsdom''),
         (''globals'', JBool True),
         (''includeSource'', JArray [JString ''src/**/*.{js,ts,vue}'']),
         (''coverage'', JObject
            [(''reportsDirectory'', JString ''../test-results/ui'')])])])"

section \<open>The sample test of the addition function\<close>

text \<open>
  Modelled from the spec: the module \<^verbatim>\<open>./sum\<close>, which the test imports, is not among the
  sources. The spec describes it as a two-argument addition function that returns the
  arithmetic sum of its integer inputs.
\<close>

definition sum_fn :: "int \<Rightarrow> int \<Rightarrow> int" where
  "sum_fn a b = a + b"

text \<open>
  The three tests of the \<^verbatim>\<open>describe\<close> block have one shape,
  \<^verbatim>\<open>expect(sum(a, b)).toBe(e)\<close>; they are kept as a table of title, arguments and
  expected value.
\<close>

record sum_test =
  title :: string
  arg_a :: int
  arg_b :: int
  expected :: int

definition sum_tests :: "sum_test list" where
  "sum_tests =
     [\<lparr>title = ''adds 1 + 2 to equal 3'', arg_a = 1, arg_b = 2, expected = 3\<rparr>,
      \<lparr>title = ''adds -1 + -1 to equal -2'', arg_a = - 1, arg_b = - 1, expected = - 2\<rparr>,
      \<lparr>title = ''adds 0 + 0 to equal 0'', arg_a = 0, arg_b = 0, expected = 0\<rparr>]"

definition fixture :: "sum_test \<Rightarrow> int \<times> int \<times> int" where
  "fixture t = (arg_a t, arg_b t, expected t)"

text \<open>
  The integers a number represents exactly: \<^verbatim>\<open>Number.MAX_SAFE_INTEGER\<close> is \<open>2^53 - 1\<close>
  and \<^verbatim>\<open>Number.isSafeInteger\<close> holds between its negation and itself. An integer
  addition whose arguments and result are safe is exact.
\<close>

definition MAX_SAFE_INTEGER :: int where
  "MAX_SAFE_INTEGER = 2 ^ 53 - 1"

definition isSafeInteger :: "int \<Rightarrow> bool" where
  "isSafeInteger n = (- MAX_SAFE_INTEGER \<le> n \<and> n \<le> MAX_SAFE_INTEGER)"

definition operands :: "sum_test \<Rightarrow> int list" where
  "operands t = [arg_a t, arg_b t, expected t, sum_fn (arg_a t) (arg_b t)]"

text \<open>Every property name written anywhere inside a value.\<close>

fun all_keys :: "js_value \<Rightarrow> string list" where
  "all_keys (JObject props) = concat (map (\<lambda>(k, v). k # all_keys v) props)"
| "all_keys (JArray vs) = concat (map all_keys vs)"
| "all_keys (JCall f args) = concat (map all_keys args)"
| "all_keys (JString s) = []"
| "all_keys (JBool b) = []"

section \<open>The patterns of \<^verbatim>\<open>includeSource\<close>\<close>

text \<open>
  \<^verbatim>\<open>includeSource\<close> is a list of glob patterns, written as strings. Which paths a
  pattern selects is decided by the glob matcher of the test runner.
\<close>

fun string_items :: "js_value \<Rightarrow> string list" where
  "string_items (JArray vs) = concat (map (\<lambda>v. case v of JString s \<Rightarrow> [s] | _ \<Rightarrow> []) vs)"
| "string_items _ = []"

definition includeSource :: "js_value \<Rightarrow> string list" where
  "includeSource config =
     (case get_path [''test'', ''includeSource''] config of
        None \<Rightarrow> []
      | Some v \<Rightarrow> string_items v)"

section \<open>The addition function on the fixtures\<close>

text \<open>
  C1. The fixtures of the sample test are (1,2) with 3, (-1,-1) with -2 and (0,0) with 0,
  and on every one of them the addition function returns exactly the expected sum.
\<close>

theorem sum_fixtures:
  "map fixture sum_tests = [(1, 2, 3), (- 1, - 1, - 2), (0, 0, 0)] \<and>
   (\<forall>t \<in> set sum_tests. sum_fn (arg_a t) (arg_b t) = expected t)"
  by (simp add: sum_tests_def fixture_def sum_fn_def)

theorem sum_fixtures_witness:
  "\<lparr>title = ''adds -1 + -1 to equal -2'', arg_a = - 1, arg_b = - 1, expected = - 2\<rparr>
     \<in> set sum_tests \<and> sum_fn (- 1) (- 1) = - 2"
proof -
  let ?t = "\<lparr>title = ''adds -1 + -1 to equal -2'', arg_a = - 1, arg_b = - 1, expected = - 2\<rparr>"
  have mem: "?t \<in> set sum_tests"
    by (simp add: sum_tests_def)
  from sum_fixtures have "\<forall>t \<in> set sum_tests. sum_fn (arg_a t) (arg_b t) = expected t" ..
  from bspec [OF this mem] have "sum_fn (- 1) (- 1) = - 2"
    by simp
  with mem show ?thesis ..
qed

section \<open>The root configuration\<close>

text \<open>
  C2. The root configuration has the one section \<^verbatim>\<open>test\<close>, which holds exactly the options
  \<^verbatim>\<open>projects\<close>, \<^verbatim>\<open>reporters\<close> and \<^verbatim>\<open>coverage\<close>: the projects are the one path
  \<^verbatim>\<open>./my-vue-app\<close>, the reporters the one name \<^verbatim>\<open>default\<close>, and the coverage record has
  exactly the provider \<^verbatim>\<open>istanbul\<close>, the reporters \<^verbatim>\<open>text\<close> and \<^verbatim>\<open>lcov\<close>, the flag
  \<^verbatim>\<open>all\<close> set to the boolean true and the reports directory \<^verbatim>\<open>./test-results\<close>.
\<close>

theorem root_config_options:
  "section_names [] root_config = Some [''test''] \<and>
   section_names [''test''] root_config = Some [''projects'', ''reporters'', ''coverage''] \<and>
   get_path [''test'', ''projects''] root_config = Some (JArray [JString ''./my-vue-app'']) \<and>
   get_path [''test'', ''reporters''] root_config = Some (JArray [JString ''default'']) \<and>
   section_names [''test'', ''coverage''] root_config =
     Some [''provider'', ''reporter'', ''all'', ''reportsDirectory''] \<and>
   get_path [''test'', ''coverage'', ''provider''] root_config = Some (JString ''istanbul'') \<and>
   get_path [''test'', ''coverage'', ''reporter''] root_config =
     Some (JArray [JString ''text'', JString ''lcov'']) \<and>
   get_path [''test'', ''coverage'', ''all''] root_config = Some (JBool True) \<and>
   get_path [''test'', ''coverage'', ''reportsDirectory''] root_config =
     Some (JString ''./test-results'')"
  by (simp add: root_config_def defineConfig_def section_names_def)

section \<open>The fixtures and the safe integer range\<close>

text \<open>
  C7. No fixture of the sample test comes near the limit of exact integers: both
  arguments, the expected value and the sum of every fixture are at most 3 in absolute
  value and are safe integers, so no addition of the suite overflows.
\<close>

theorem fixtures_safe:
  "\<forall>t \<in> set sum_tests. \<forall>n \<in> set (operands t). \<bar>n\<bar> \<le> 3 \<and> isSafeInteger n"
  by (simp add: sum_tests_def operands_def sum_fn_def isSafeInteger_def MAX_SAFE_INTEGER_def)

theorem fixtures_safe_witness:
  "\<lparr>title = ''adds 1 + 2 to equal 3'', arg_a = 1, arg_b = 2, expected = 3\<rparr> \<in> set sum_tests \<and>
   sum_fn 1 2 \<in> set (operands
     \<lparr>title = ''adds 1 + 2 to equal 3'', arg_a = 1, arg_b = 2, expected = 3\<rparr>) \<and>
   \<bar>sum_fn 1 2\<bar> \<le> 3 \<and> isSafeInteger (sum_fn 1 2)"
proof -
  let ?t = "\<lparr>title = ''adds 1 + 2 to equal 3'', arg_a = 1, arg_b = 2, expected = 3\<rparr>"
  have mem: "?t \<in> set sum_tests"
    by (simp add: sum_tests_def)
  have op: "sum_fn 1 2 \<in> set (operands ?t)"
    by (simp add: operands_def)
  from bspec [OF bspec [OF fixtures_safe mem] op]
  have "\<bar>sum_fn 1 2\<bar> \<le> 3 \<and> isSafeInteger (sum_fn 1 2)" .
  with mem op show ?thesis by simp
qed

section \<open>The configuration of the sub-project\<close>

text \<open>
  C5. The sub-project configuration declares the test environment \<^verbatim>\<open>jsdom\<close>, the one
  plugin \<^verbatim>\<open>vue()\<close> and the coverage reports directory \<^verbatim>\<open>../test-results/ui\<close>.
\<close>

theorem project_config_declares:
  "get_path [''test'', ''environment''] project_config = Some (JString ''jsdom'') \<and>
   get_path [''plugins''] project_config = Some (JArray [JCall ''vue'' []]) \<and>
   get_path [''test'', ''coverage'', ''reportsDirectory''] project_config =
     Some (JString ''../test-results/ui'')"
  by (simp add: project_config_def defineConfig_def vue_def)

text \<open>
  C8. The coverage record of the sub-project has the reports directory as its only
  property; it has no provider, and no property of that name occurs anywhere in the
  sub-project configuration. The provider \<^verbatim>\<open>istanbul\<close> is declared by the root
  configuration alone.
\<close>

theorem provider_only_in_root:
  "section_names [''test'', ''coverage''] project_config = Some [''reportsDirectory''] \<and>
   get_path [''test'', ''coverage'', ''reportsDirectory''] project_config =
     Some (JString ''../test-results/ui'') \<and>
   get_path [''test'', ''coverage'', ''provider''] project_config = None \<and>
   ''provider'' \<notin> set (all_keys project_config) \<and>
   get_path [''test'', ''coverage'', ''provider''] root_config = Some (JString ''istanbul'')"
  by (simp add: project_config_def root_config_def defineConfig_def vue_def section_names_def)


section \<open>The test section of the sub-project\<close>

text \<open>
  What the \<^verbatim>\<open>test\<close> section of the sub-project configuration declares: besides the
  environment and the coverage record, \<^verbatim>\<open>globals\<close> set to true and \<^verbatim>\<open>includeSource\<close>
  set to one glob pattern; the root configuration declares no \<^verbatim>\<open>includeSource\<close>. Which
  paths the pattern selects is decided by the matcher of the test runner and is not
  stated here.
\<close>

lemma project_test_section:
  "section_names [''test''] project_config =
     Some [''environment'', ''globals'', ''includeSource'', ''coverage''] \<and>
   get_path [''test'', ''globals''] project_config = Some (JBool True) \<and>
   includeSource project_config = [''src/**/*.{js,ts,vue}''] \<and>
   includeSource root_config = []"
  by (simp add: project_config_def root_config_def defineConfig_def section_names_def
      includeSource_def)

end
